theory Spec2Isabelle
  imports Main
begin

section \<open>JavaScript values\<close>

text \<open>
  The job, the parsed handler descriptor and every thrown value have the TypeScript type
  \<open>any\<close>. They are modelled as data values: primitives, arrays, plain objects (an
  association list of own properties) and \<open>Error\<close> instances, which carry their class
  name and their message. Numbers are integers; values with callable properties of their
  own are not part of this type. \<open>JExportNotFound n m\<close> is an instance of
  \<open>JobExportNotFoundError\<close> built for the handler name \<open>n\<close>, with message \<open>m\<close>.
\<close>

datatype jsval =
    JUndefined
  | JNull
  | JBool bool
  | JNum int
  | JStr string
  | JArr "jsval list"
  | JObj "(string \<times> jsval) list"
  | JErr string string
  | JExportNotFound jsval string

text \<open>The result of an expression: \<open>Inl e\<close> when it throws \<open>e\<close>, \<open>Inr v\<close> when it yields \<open>v\<close>.\<close>

type_synonym 'a completion = "jsval + 'a"

definition TypeError :: "string \<Rightarrow> jsval" where
  "TypeError m = JErr ''TypeError'' m"

text \<open>\<open>!v\<close> is true exactly on the falsy values.\<close>

fun truthy :: "jsval \<Rightarrow> bool" where
  "truthy JUndefined = False"
| "truthy JNull = False"
| "truthy (JBool b) = b"
| "truthy (JNum n) = (n \<noteq> 0)"
| "truthy (JStr s) = (s \<noteq> [])"
| "truthy _ = True"

text \<open>
  \<open>v.k\<close> for the property names the program reads (\<open>id\<close>, \<open>handler\<close>, \<open>args\<close>,
  \<open>message\<close>): reading a property of \<open>undefined\<close> or \<open>null\<close> throws a TypeError, a
  property an object does not have is \<open>undefined\<close>.
\<close>

fun get_prop :: "jsval \<Rightarrow> string \<Rightarrow> jsval completion" where
  "get_prop JUndefined k = Inl (TypeError (''Cannot read properties of undefined, reading '' @ k))"
| "get_prop JNull k = Inl (TypeError (''Cannot read properties of null, reading '' @ k))"
| "get_prop (JObj ps) k = Inr (case map_of ps k of Some v \<Rightarrow> v | None \<Rightarrow> JUndefined)"
| "get_prop (JErr c m) k = Inr (if k = ''message'' then JStr m else JUndefined)"
| "get_prop (JExportNotFound n m) k = Inr (if k = ''message'' then JStr m else JUndefined)"
| "get_prop _ k = Inr JUndefined"

text \<open>The regular expression \<open>/is not a constructor/\<close> has no metacharacter: \<open>match\<close>
  finds it exactly when the text occurs somewhere in the string.\<close>

primrec starts_with :: "string \<Rightarrow> string \<Rightarrow> bool" where
  "starts_with [] s = True"
| "starts_with (p # ps) s = (case s of [] \<Rightarrow> False | c # cs \<Rightarrow> p = c \<and> starts_with ps cs)"

primrec occurs_in :: "string \<Rightarrow> string \<Rightarrow> bool" where
  "occurs_in p [] = (p = [])"
| "occurs_in p (c # cs) = (starts_with p (c # cs) \<or> occurs_in p cs)"

text \<open>
  \<open>e.message.match(/is not a constructor/)\<close>, as a truth value. It throws a TypeError when
  \<open>e\<close> is \<open>undefined\<close> or \<open>null\<close>, and when \<open>e.message\<close> is not a string (it is then
  \<open>undefined\<close>, \<open>null\<close>, or a value with no \<open>match\<close> method).
\<close>

definition message_match :: "jsval \<Rightarrow> bool completion" where
  "message_match e =
     (case get_prop e ''message'' of
        Inl t \<Rightarrow> Inl t
      | Inr (JStr s) \<Rightarrow> Inr (occurs_in ''is not a constructor'' s)
      | Inr JUndefined \<Rightarrow> Inl (TypeError ''Cannot read properties of undefined, reading match'')
      | Inr JNull \<Rightarrow> Inl (TypeError ''Cannot read properties of null, reading match'')
      | Inr _ \<Rightarrow> Inl (TypeError ''e.message.match is not a function''))"

text \<open>\<open>...v\<close> in an argument list: an array spreads into its elements, a string into its
  characters; a value that is not iterable throws a TypeError.\<close>

fun spread_args :: "jsval \<Rightarrow> jsval list completion" where
  "spread_args (JArr xs) = Inr xs"
| "spread_args (JStr s) = Inr (map (\<lambda>c. JStr [c]) s)"
| "spread_args _ = Inl (TypeError ''Spread syntax requires an iterable'')"

section \<open>Collaborators\<close>

text \<open>
  The adapter (type \<open>BaseAdapter\<close>): a call of \<open>success\<close> or \<open>failure\<close> either throws or
  returns a value (the promise the caller hands on).
\<close>

record FailureOptions =
  fo_maxAttempts :: "int option"
  fo_deleteFailedJobs :: "bool option"

record BaseAdapter =
  success :: "jsval \<Rightarrow> jsval completion"
  failure :: "jsval \<Rightarrow> jsval \<Rightarrow> FailureOptions \<Rightarrow> jsval completion"

text \<open>A logger (type \<open>BasicLogger\<close>): \<open>console\<close> or a logger of the application. Its
  methods return normally; what they are called with is recorded.\<close>

datatype BasicLogger = console | AppLogger string

text \<open>
  What \<open>jobModule[name]\<close> holds: a class, or anything else. \<open>new C()\<close> on a class either
  throws or gives an instance, whose \<open>perform\<close>, called with the arguments and awaited,
  either throws (or rejects) or completes.
\<close>

datatype export = NotAConstructor | Class "(jsval list \<Rightarrow> unit completion) completion"

text \<open>
  The parts the Executor uses and this development takes as parameters:
  \<open>JSON.parse\<close> of the runtime, \<open>loadJob\<close> of \<open>../loaders\<close> (awaited: it rejects or gives a
  module, a table of exports), the message text \<open>JobExportNotFoundError\<close> of \<open>../errors\<close>
  builds, and the two constants of \<open>../consts\<close>.
\<close>

record runtime =
  JSON_parse :: "jsval \<Rightarrow> jsval completion"
  loadJob :: "jsval \<Rightarrow> (jsval \<Rightarrow> export) completion"
  export_not_found_message :: "jsval \<Rightarrow> string"
  DEFAULT_MAX_ATTEMPTS :: int
  DEFAULT_DELETE_FAILED_JOBS :: bool

definition JobExportNotFoundError :: "runtime \<Rightarrow> jsval \<Rightarrow> jsval" where
  "JobExportNotFoundError rt name = JExportNotFound name (export_not_found_message rt name)"

section \<open>Executor\<close>

subsection \<open>Options and construction\<close>

text \<open>
  A key of the options object is absent, present with value \<open>undefined\<close>, or present with
  a value. \<open>job\<close> has type \<open>any\<close>, so it may also hold a falsy value.
\<close>

datatype 'a field = Absent | Undefined | Value 'a

record Options =
  opt_adapter :: "BaseAdapter field"
  opt_job :: "jsval field"
  opt_logger :: "BasicLogger field"
  opt_maxAttempts :: "int field"
  opt_deleteFailedJobs :: "bool field"

definition DEFAULTS :: "runtime \<Rightarrow> Options" where
  "DEFAULTS rt =
     \<lparr> opt_adapter = Absent, opt_job = Absent,
       opt_logger = Value console,
       opt_maxAttempts = Value (DEFAULT_MAX_ATTEMPTS rt),
       opt_deleteFailedJobs = Value (DEFAULT_DELETE_FAILED_JOBS rt) \<rparr>"

text \<open>\<open>{...a, ...b}\<close>, key by key: the key of \<open>b\<close> wins whenever \<open>b\<close> has it, whatever its
  value.\<close>

fun spread_field :: "'a field \<Rightarrow> 'a field \<Rightarrow> 'a field" where
  "spread_field a Absent = a"
| "spread_field a b = b"

definition spread :: "Options \<Rightarrow> Options \<Rightarrow> Options" where
  "spread a b =
     \<lparr> opt_adapter = spread_field (opt_adapter a) (opt_adapter b),
       opt_job = spread_field (opt_job a) (opt_job b),
       opt_logger = spread_field (opt_logger a) (opt_logger b),
       opt_maxAttempts = spread_field (opt_maxAttempts a) (opt_maxAttempts b),
       opt_deleteFailedJobs = spread_field (opt_deleteFailedJobs a) (opt_deleteFailedJobs b) \<rparr>"

text \<open>Reading a key: \<open>None\<close> is \<open>undefined\<close>.\<close>

fun read_field :: "'a field \<Rightarrow> 'a option" where
  "read_field (Value v) = Some v"
| "read_field _ = None"

datatype ctor_error = AdapterRequiredError | JobRequiredError

record Executor =
  options :: Options
  adapter :: BaseAdapter
  logger :: "BasicLogger option"
  job :: jsval
  maxAttempts :: "int option"
  deleteFailedJobs :: "bool option"

definition new_Executor :: "runtime \<Rightarrow> Options \<Rightarrow> ctor_error + Executor" where
  "new_Executor rt opts =
     (let os = spread (DEFAULTS rt) opts in
      case read_field (opt_adapter os) of
        None \<Rightarrow> Inl AdapterRequiredError
      | Some a \<Rightarrow>
          (case read_field (opt_job os) of
             None \<Rightarrow> Inl JobRequiredError
           | Some j \<Rightarrow>
               if \<not> truthy j then Inl JobRequiredError
               else Inr \<lparr> options = os, adapter = a,
                          logger = read_field (opt_logger os), job = j,
                          maxAttempts = read_field (opt_maxAttempts os),
                          deleteFailedJobs = read_field (opt_deleteFailedJobs os) \<rparr>))"

subsection \<open>perform\<close>

text \<open>What \<open>perform\<close> does to its collaborators, in order.\<close>

datatype event =
    LoggerInfo BasicLogger jsval jsval
  | LoggerErrorStack BasicLogger jsval
  | AdapterSuccess jsval
  | AdapterFailure jsval jsval FailureOptions

text \<open>Lines 69 and 70, the two statements of the \<open>try\<close> block before the success report.\<close>

definition load_and_invoke :: "runtime \<Rightarrow> jsval \<Rightarrow> unit completion" where
  "load_and_invoke rt details =
     (case get_prop details ''handler'' of
        Inl t \<Rightarrow> Inl t
      | Inr h \<Rightarrow>
          (case loadJob rt h of
             Inl e \<Rightarrow> Inl e
           | Inr jobModule \<Rightarrow>
               (case jobModule h of
                  NotAConstructor \<Rightarrow>
                    Inl (TypeError ''jobModule[details.handler] is not a constructor'')
                | Class construct \<Rightarrow>
                    (case construct of
                       Inl e \<Rightarrow> Inl e
                     | Inr instance_perform \<Rightarrow>
                         (case get_prop details ''args'' of
                            Inl t \<Rightarrow> Inl t
                          | Inr a \<Rightarrow>
                              (case spread_args a of
                                 Inl t \<Rightarrow> Inl t
                               | Inr args \<Rightarrow> instance_perform args))))))"

text \<open>The \<open>catch\<close> block, entered with the events so far and the caught value.\<close>

definition catch_block ::
  "runtime \<Rightarrow> Executor \<Rightarrow> BasicLogger \<Rightarrow> jsval \<Rightarrow> event list \<Rightarrow> jsval \<Rightarrow> event list \<times> jsval completion" where
  "catch_block rt ex lg details evs e =
     (case message_match e of
        Inl t \<Rightarrow> (evs, Inl t)
      | Inr m \<Rightarrow>
          (case (if m then map_sum id (JobExportNotFoundError rt) (get_prop details ''handler'')
                 else Inr e) of
             Inl t \<Rightarrow> (evs, Inl t)
           | Inr error \<Rightarrow>
               (let fo = \<lparr> fo_maxAttempts = maxAttempts ex,
                           fo_deleteFailedJobs = deleteFailedJobs ex \<rparr>
                in (evs @ [LoggerErrorStack lg error, AdapterFailure (job ex) error fo],
                    failure (adapter ex) (job ex) error fo))))"

text \<open>\<open>perform\<close>: the events, and how the returned promise settles (\<open>Inl\<close>: rejected with
  the thrown value; \<open>Inr\<close>: resolved with the value returned).\<close>

definition perform :: "runtime \<Rightarrow> Executor \<Rightarrow> event list \<times> jsval completion" where
  "perform rt ex =
     (case logger ex of
        None \<Rightarrow> ([], Inl (TypeError ''Cannot read properties of undefined, reading info''))
      | Some lg \<Rightarrow>
          (case get_prop (job ex) ''id'' of
             Inl t \<Rightarrow> ([], Inl t)
           | Inr jid \<Rightarrow>
               (let started = [LoggerInfo lg (job ex) jid] in
                case get_prop (job ex) ''handler'' of
                  Inl t \<Rightarrow> (started, Inl t)
                | Inr h \<Rightarrow>
                    (case JSON_parse rt h of
                       Inl e \<Rightarrow> (started, Inl e)
                     | Inr details \<Rightarrow>
                         (case load_and_invoke rt details of
                            Inl e \<Rightarrow> catch_block rt ex lg details started e
                          | Inr u \<Rightarrow>
                              (case success (adapter ex) (job ex) of
                                 Inl e \<Rightarrow>
                                   catch_block rt ex lg details
                                     (started @ [AdapterSuccess (job ex)]) e
                               | Inr r \<Rightarrow> (started @ [AdapterSuccess (job ex)], Inr r)))))))"

text \<open>How often each adapter method was invoked.\<close>

fun is_success :: "event \<Rightarrow> bool" where
  "is_success (AdapterSuccess j) = True"
| "is_success _ = False"

fun is_failure :: "event \<Rightarrow> bool" where
  "is_failure (AdapterFailure j e fo) = True"
| "is_failure _ = False"

definition success_calls :: "event list \<Rightarrow> nat" where
  "success_calls evs = length (filter is_success evs)"

definition failure_calls :: "event list \<Rightarrow> nat" where
  "failure_calls evs = length (filter is_failure evs)"

text \<open>The options \<open>perform\<close> hands to \<open>adapter.failure\<close>, and the handler name of a
  descriptor (\<open>undefined\<close> where the descriptor has none to read).\<close>

definition failure_options :: "Executor \<Rightarrow> FailureOptions" where
  "failure_options ex =
     \<lparr> fo_maxAttempts = maxAttempts ex, fo_deleteFailedJobs = deleteFailedJobs ex \<rparr>"

definition handler_name :: "jsval \<Rightarrow> jsval" where
  "handler_name details = (case get_prop details ''handler'' of Inl t \<Rightarrow> JUndefined | Inr h \<Rightarrow> h)"

text \<open>A value has a string message when \<open>e.message\<close> reads as a string.\<close>

definition string_message :: "jsval \<Rightarrow> string option" where
  "string_message e = (case get_prop e ''message'' of Inr (JStr m) \<Rightarrow> Some m | _ \<Rightarrow> None)"

text \<open>The errors handed to \<open>adapter.failure\<close>, in order.\<close>

fun reported_errors :: "event list \<Rightarrow> jsval list" where
  "reported_errors [] = []"
| "reported_errors (AdapterFailure j e fo # evs) = e # reported_errors evs"
| "reported_errors (ev # evs) = reported_errors evs"

text \<open>The job an event was given, if it was given one.\<close>

fun event_job :: "event \<Rightarrow> jsval option" where
  "event_job (LoggerInfo lg j jid) = Some j"
| "event_job (LoggerErrorStack lg e) = None"
| "event_job (AdapterSuccess j) = Some j"
| "event_job (AdapterFailure j e fo) = Some j"

section \<open>The worker process (\<open>rw-jobs-worker\<close>)\<close>

text \<open>
  The parsed command line, the two loaders of \<open>../core/loaders\<close> (awaited), the
  constructor of \<open>Worker\<close> and the \<open>on\<close> member of the imported \<open>process\<close> namespace are
  parameters. A \<open>Worker\<close> is its \<open>forever\<close> flag and the rest of its state, which this
  file never touches. The file imports \<open>process\<close> as a namespace
  (\<open>import * as process from 'node:process'\<close>): a call \<open>process.on(signal, handler)\<close>
  either throws (a TypeError where the namespace has no callable \<open>on\<close>) or registers
  the handler.
\<close>

datatype signal = SIGINT | SIGTERM

record 'w Worker =
  forever :: bool
  internals :: 'w

record WorkerOptions =
  wo_adapter :: BaseAdapter
  wo_processName :: string
  wo_logger :: BasicLogger
  wo_queue :: "string option"
  wo_workoff :: bool
  wo_clear :: bool

record 'w host =
  arg_id :: string
  arg_queue :: "string option"
  arg_clear :: bool
  arg_workoff :: bool
  loadLogger :: "BasicLogger completion"
  loadAdapter :: "BaseAdapter completion"
  new_Worker :: "WorkerOptions \<Rightarrow> 'w Worker completion"
  process_on :: "signal \<Rightarrow> unit completion"

definition TITLE_PREFIX :: string where
  "TITLE_PREFIX = ''rw-jobs-worker''"

definition setProcessTitle :: "string \<Rightarrow> string option \<Rightarrow> string" where
  "setProcessTitle ident queue =
     (case queue of
        Some q \<Rightarrow> if q \<noteq> [] then TITLE_PREFIX @ ''.'' @ q @ ''.'' @ ident
                  else TITLE_PREFIX @ ''.'' @ ident
      | None \<Rightarrow> TITLE_PREFIX @ ''.'' @ ident)"

text \<open>The logger calls of the process; each message starts with the process title, the
  time stamp in it is left out.\<close>

datatype log_call =
    error_call jsval
  | info_starting string
  | info_finished string
  | warn_sigint string
  | info_sigterm string

text \<open>
  A process runs until \<open>process.exit(code)\<close>, until a rejection nobody handles brings it
  down (\<open>main()\<close> is called with no handler for its promise; the runtime then ends the
  process with a failure code), or until a signal it has no handler for terminates it.
\<close>

datatype status = Running | Exited int | Crashed jsval | Killed signal

text \<open>The state of the process: \<open>p_handlers\<close> lists the signals a handler is registered
  for, \<open>p_worker\<close> is the Worker once \<open>worker.run()\<close> has been started.\<close>

record 'w process =
  p_title :: string
  p_log :: "log_call list"
  p_status :: status
  p_worker :: "'w Worker option"
  p_handlers :: "signal list"

text \<open>The process while \<open>main\<close> awaits its loaders: the title is set, no Worker exists and
  no handler is registered.\<close>

definition booting :: "'w host \<Rightarrow> 'w process" where
  "booting h =
     \<lparr> p_title = setProcessTitle (arg_id h) (arg_queue h), p_log = [], p_status = Running,
       p_worker = None, p_handlers = [] \<rparr>"

text \<open>\<open>setupSignals\<close>: the two calls of \<open>process.on\<close>, in order. A call that throws ends
  \<open>main\<close> with a rejection, and the later registration is not reached.\<close>

definition setupSignals :: "'w host \<Rightarrow> 'w process \<Rightarrow> 'w process" where
  "setupSignals h p =
     (case process_on h SIGINT of
        Inl e \<Rightarrow> p\<lparr>p_status := Crashed e\<rparr>
      | Inr u \<Rightarrow>
          (let p1 = p\<lparr>p_handlers := p_handlers p @ [SIGINT]\<rparr> in
           case process_on h SIGTERM of
             Inl e \<Rightarrow> p1\<lparr>p_status := Crashed e\<rparr>
           | Inr u' \<Rightarrow> p1\<lparr>p_handlers := p_handlers p1 @ [SIGTERM]\<rparr>))"

text \<open>\<open>main\<close>, from its first statement to its last: the state it leaves.\<close>

definition main :: "'w host \<Rightarrow> 'w process" where
  "main h =
     (let p0 = booting h; title = p_title p0
      in case loadLogger h of
           Inl e \<Rightarrow> p0\<lparr>p_status := Crashed e\<rparr>
         | Inr lg \<Rightarrow>
             (case loadAdapter h of
                Inl e \<Rightarrow> p0\<lparr>p_log := [error_call e], p_status := Exited 1\<rparr>
              | Inr a \<Rightarrow>
                  (let p1 = p0\<lparr>p_log := [info_starting title]\<rparr> in
                   case new_Worker h \<lparr> wo_adapter = a, wo_processName = title, wo_logger = lg,
                                        wo_queue = arg_queue h, wo_workoff = arg_workoff h,
                                        wo_clear = arg_clear h \<rparr> of
                     Inl e \<Rightarrow> p1\<lparr>p_status := Crashed e\<rparr>
                   | Inr w \<Rightarrow> setupSignals h (p1\<lparr>p_worker := Some w\<rparr>))))"

text \<open>What can happen to the process: a signal arrives, or the promise of
  \<open>worker.run()\<close> settles.\<close>

datatype occurrence = Signal signal | RunResolved | RunRejected jsval

text \<open>The \<open>SIGINT\<close> handler, the \<open>SIGTERM\<close> handler and the \<open>then\<close> callback of
  \<open>worker.run()\<close>.\<close>

definition on_SIGINT :: "'w process \<Rightarrow> 'w process" where
  "on_SIGINT p =
     p\<lparr> p_log := p_log p @ [warn_sigint (p_title p)],
        p_worker := map_option (\<lambda>w. w\<lparr>forever := False\<rparr>) (p_worker p) \<rparr>"

definition on_SIGTERM :: "'w process \<Rightarrow> 'w process" where
  "on_SIGTERM p = p\<lparr> p_log := p_log p @ [info_sigterm (p_title p)], p_status := Exited 0 \<rparr>"

definition on_run_resolved :: "'w process \<Rightarrow> 'w process" where
  "on_run_resolved p = p\<lparr> p_log := p_log p @ [info_finished (p_title p)], p_status := Exited 0 \<rparr>"

text \<open>
  Nothing runs in a process that is gone. A signal runs its handler where one is
  registered and terminates the process where none is. The promise of \<open>worker.run()\<close>
  settles only once \<open>worker.run()\<close> has been started.
\<close>

fun deliver :: "'w process \<Rightarrow> occurrence \<Rightarrow> 'w process" where
  "deliver p oc =
     (if p_status p \<noteq> Running then p
      else case oc of
             Signal sg \<Rightarrow>
               if sg \<in> set (p_handlers p)
               then (case sg of SIGINT \<Rightarrow> on_SIGINT p | SIGTERM \<Rightarrow> on_SIGTERM p)
               else p\<lparr>p_status := Killed sg\<rparr>
           | RunResolved \<Rightarrow> if p_worker p = None then p else on_run_resolved p
           | RunRejected e \<Rightarrow> if p_worker p = None then p else p\<lparr>p_status := Crashed e\<rparr>)"

section \<open>Example inputs\<close>

definition welcome_handler :: string where
  \<open>welcome_handler = ''{"handler":"SendWelcomeEmailJob","args":[{"userId":7}]}''\<close>

definition welcome_details :: jsval where
  "welcome_details =
     JObj [(''handler'', JStr ''SendWelcomeEmailJob''),
           (''args'', JArr [JObj [(''userId'', JNum 7)]])]"

definition welcome_job :: jsval where
  "welcome_job = JObj [(''id'', JNum 42), (''handler'', JStr welcome_handler)]"

text \<open>A job record with no \<open>handler\<close> field.\<close>

definition bare_job :: jsval where
  "bare_job = JObj [(''id'', JNum 43)]"

text \<open>
  A runtime whose \<open>JSON.parse\<close> knows the text above and rejects \<open>undefined\<close> (which reads
  as the text \<open>undefined\<close>, not JSON), and whose only job module exports the given value
  under the name \<open>SendWelcomeEmailJob\<close>.
\<close>

definition example_parse :: "jsval \<Rightarrow> jsval completion" where
  "example_parse v =
     (if v = JStr welcome_handler then Inr welcome_details
      else Inl (JErr ''SyntaxError'' ''Unexpected token in JSON''))"

definition example_runtime :: "export \<Rightarrow> runtime" where
  "example_runtime ex =
     \<lparr> JSON_parse = example_parse,
       loadJob = (\<lambda>name. if name = JStr ''SendWelcomeEmailJob''
                         then Inr (\<lambda>k. if k = JStr ''SendWelcomeEmailJob'' then ex
                                        else NotAConstructor)
                         else Inl (JErr ''JobNotFoundError'' ''Job not found'')),
       export_not_found_message = (\<lambda>name. ''Job file does not export a class with the same name''),
       DEFAULT_MAX_ATTEMPTS = 24,
       DEFAULT_DELETE_FAILED_JOBS = False \<rparr>"

text \<open>Handler classes: one whose \<open>perform\<close> completes, one whose \<open>perform\<close> throws the
  given value.\<close>

definition completing_job :: export where
  "completing_job = Class (Inr (\<lambda>args. Inr ()))"

definition throwing_job :: "jsval \<Rightarrow> export" where
  "throwing_job e = Class (Inr (\<lambda>args. Inl e))"

text \<open>Adapters: one whose calls return, one whose \<open>success\<close> throws.\<close>

definition quiet_adapter :: BaseAdapter where
  "quiet_adapter = \<lparr> success = (\<lambda>j. Inr JUndefined), failure = (\<lambda>j e fo. Inr JNull) \<rparr>"

definition broken_adapter :: BaseAdapter where
  "broken_adapter =
     \<lparr> success = (\<lambda>j. Inl (JErr ''Error'' ''connection lost'')),
       failure = (\<lambda>j e fo. Inr JNull) \<rparr>"

definition example_options :: "BaseAdapter \<Rightarrow> jsval \<Rightarrow> Options" where
  "example_options a j =
     \<lparr> opt_adapter = Value a, opt_job = Value j, opt_logger = Absent,
       opt_maxAttempts = Absent, opt_deleteFailedJobs = Absent \<rparr>"

definition example_executor :: "BaseAdapter \<Rightarrow> jsval \<Rightarrow> Executor" where
  "example_executor a j =
     \<lparr> options = spread (DEFAULTS (example_runtime completing_job)) (example_options a j),
       adapter = a, logger = Some console, job = j,
       maxAttempts = Some 24, deleteFailedJobs = Some False \<rparr>"

text \<open>
  A start on a runtime whose \<open>process\<close> namespace has no callable \<open>on\<close> (\<open>on\<close> is
  inherited from the event emitter, and the namespace holds the module's own properties
  only), with the given outcome of \<open>loadAdapter\<close>; and the same start on a runtime whose
  \<open>process.on\<close> registers the handler.
\<close>

definition namespace_host :: "BaseAdapter completion \<Rightarrow> unit host" where
  "namespace_host la =
     \<lparr> arg_id = ''0'', arg_queue = None, arg_clear = False, arg_workoff = False,
       loadLogger = Inr console, loadAdapter = la,
       new_Worker = (\<lambda>wo. Inr \<lparr> forever = True, internals = () \<rparr>),
       process_on = (\<lambda>sg. Inl (TypeError ''process.on is not a function'')) \<rparr>"

definition registering_host :: "BaseAdapter completion \<Rightarrow> unit host" where
  "registering_host la = (namespace_host la)\<lparr> process_on := (\<lambda>sg. Inr ()) \<rparr>"

section \<open>Facts about the model\<close>

text \<open>\<open>occurs_in\<close> is the substring test.\<close>

lemma starts_with_append: "starts_with p s \<longleftrightarrow> (\<exists>v. s = p @ v)"
  by (induction p arbitrary: s) (auto split: list.splits)

lemma occurs_in_append: "occurs_in p s \<longleftrightarrow> (\<exists>u v. s = u @ p @ v)"
proof (induction s)
  case Nil
  then show ?case by auto
next
  case (Cons c cs)
  show ?case
  proof
    assume "occurs_in p (c # cs)"
    then consider "starts_with p (c # cs)" | "occurs_in p cs" by auto
    then show "\<exists>u v. c # cs = u @ p @ v"
    proof cases
      case 1
      then obtain v where "c # cs = p @ v" using starts_with_append by blast
      then have "c # cs = [] @ p @ v" by simp
      then show ?thesis by blast
    next
      case 2
      with Cons obtain u v where "cs = u @ p @ v" by blast
      then have "c # cs = (c # u) @ p @ v" by simp
      then show ?thesis by blast
    qed
  next
    assume "\<exists>u v. c # cs = u @ p @ v"
    then obtain u v where uv: "c # cs = u @ p @ v" by blast
    show "occurs_in p (c # cs)"
    proof (cases u)
      case Nil
      with uv have "starts_with p (c # cs)" using starts_with_append by fastforce
      then show ?thesis by simp
    next
      case (Cons a u')
      with uv have "cs = u' @ p @ v" by simp
      with Cons.IH have "occurs_in p cs" by blast
      then show ?thesis by simp
    qed
  qed
qed

lemma message_match_string:
  "string_message e = Some m \<Longrightarrow> message_match e = Inr (occurs_in ''is not a constructor'' m)"
  by (auto simp: string_message_def message_match_def split: sum.splits jsval.splits)

lemma message_match_no_string:
  "string_message e = None \<Longrightarrow> \<exists>msg. message_match e = Inl (TypeError msg)"
  by (cases e) (auto simp: string_message_def message_match_def TypeError_def split: sum.splits jsval.splits option.splits)

lemma nullish_details_no_match:
  "get_prop details ''handler'' = Inl t \<Longrightarrow> message_match t = Inr False"
  by (cases details) (auto simp: message_match_def TypeError_def)

lemma load_and_invoke_handler:
  assumes "load_and_invoke rt details = Inl e" "message_match e = Inr True"
  shows "get_prop details ''handler'' = Inr (handler_name details)"
proof (cases "get_prop details ''handler''")
  case (Inl t)
  with assms(1) have "e = t" by (simp add: load_and_invoke_def)
  with Inl assms(2) show ?thesis using nullish_details_no_match by fastforce
next
  case (Inr h)
  then show ?thesis by (simp add: handler_name_def)
qed

lemma load_and_invoke_done_handler:
  assumes "load_and_invoke rt details = Inr u"
  shows "get_prop details ''handler'' = Inr (handler_name details)"
  using assms by (cases "get_prop details ''handler''") (simp_all add: load_and_invoke_def handler_name_def)

lemma catch_block_string:
  assumes "string_message e = Some m"
    and "occurs_in ''is not a constructor'' m \<Longrightarrow> get_prop details ''handler'' = Inr (handler_name details)"
  shows "catch_block rt ex lg details evs e =
    (let error = (if occurs_in ''is not a constructor'' m
                  then JobExportNotFoundError rt (handler_name details) else e)
     in (evs @ [LoggerErrorStack lg error, AdapterFailure (job ex) error (failure_options ex)],
         failure (adapter ex) (job ex) error (failure_options ex)))"
  using assms message_match_string[OF assms(1)]
  by (simp add: catch_block_def failure_options_def Let_def)

lemma catch_block_no_string:
  assumes "string_message e = None"
  shows "\<exists>msg. catch_block rt ex lg details evs e = (evs, Inl (TypeError msg))"
  using message_match_no_string[OF assms] by (auto simp: catch_block_def)

lemma perform_parsed:
  assumes "logger ex = Some lg" "get_prop (job ex) ''id'' = Inr jid"
    "get_prop (job ex) ''handler'' = Inr h" "JSON_parse rt h = Inr details"
  shows "perform rt ex =
     (case load_and_invoke rt details of
        Inl e \<Rightarrow> catch_block rt ex lg details [LoggerInfo lg (job ex) jid] e
      | Inr u \<Rightarrow>
         (case success (adapter ex) (job ex) of
            Inl e \<Rightarrow> catch_block rt ex lg details [LoggerInfo lg (job ex) jid, AdapterSuccess (job ex)] e
          | Inr r \<Rightarrow> ([LoggerInfo lg (job ex) jid, AdapterSuccess (job ex)], Inr r)))"
  using assms by (simp add: perform_def Let_def split: sum.splits)



lemma welcome_job_props:
  "get_prop welcome_job ''handler'' = Inr (JStr welcome_handler)"
  "get_prop welcome_job ''id'' = Inr (JNum 42)"
  by (simp_all add: welcome_job_def)

lemma example_parse_welcome:
  "JSON_parse (example_runtime x) (JStr welcome_handler) = Inr welcome_details"
  by (simp add: example_runtime_def example_parse_def)

lemma example_executor_fields:
  "logger (example_executor a j) = Some console"
  "job (example_executor a j) = j"
  "adapter (example_executor a j) = a"
  "failure_options (example_executor a j) = \<lparr>fo_maxAttempts = Some 24, fo_deleteFailedJobs = Some False\<rparr>"
  by (simp_all add: example_executor_def failure_options_def)

lemma throwing_job_invoke:
  "load_and_invoke (example_runtime (throwing_job e)) welcome_details = Inl e"
  by (simp add: load_and_invoke_def example_runtime_def welcome_details_def throwing_job_def)

lemma completing_job_invoke:
  "load_and_invoke (example_runtime completing_job) welcome_details = Inr ()"
  by (simp add: load_and_invoke_def example_runtime_def welcome_details_def completing_job_def)

lemma not_a_constructor_invoke:
  "load_and_invoke (example_runtime NotAConstructor) welcome_details =
     Inl (TypeError ''jobModule[details.handler] is not a constructor'')"
  by (simp add: load_and_invoke_def example_runtime_def welcome_details_def)

lemma catch_block_calls:
  "success_calls (fst (catch_block rt ex lg details evs e)) = success_calls evs"
  "failure_calls (fst (catch_block rt ex lg details evs e)) \<le> failure_calls evs + 1"
  by (auto simp: catch_block_def success_calls_def failure_calls_def Let_def split: sum.splits)

lemma catch_block_string_calls:
  assumes "string_message e = Some m"
    and "occurs_in ''is not a constructor'' m \<Longrightarrow> get_prop details ''handler'' = Inr (handler_name details)"
  shows "failure_calls (fst (catch_block rt ex lg details evs e)) = failure_calls evs + 1"
  using catch_block_string[OF assms, of rt ex lg evs]
  by (simp add: Let_def failure_calls_def)

lemma reported_errors_append:
  "reported_errors (xs @ ys) = reported_errors xs @ reported_errors ys"
  by (induction xs rule: reported_errors.induct) simp_all

lemma perform_at_most_once:
  "success_calls (fst (perform rt ex)) \<le> 1 \<and> failure_calls (fst (perform rt ex)) \<le> 1"
proof -
  have a: "success_calls [] = 0" "failure_calls [] = 0"
    "success_calls [LoggerInfo lg j jid] = 0" "failure_calls [LoggerInfo lg j jid] = 0"
    "success_calls [LoggerInfo lg j jid, AdapterSuccess j'] = 1"
    "failure_calls [LoggerInfo lg j jid, AdapterSuccess j'] = 0" for lg j jid j'
    by (simp_all add: success_calls_def failure_calls_def)
  have f: "failure_calls (fst (catch_block rt ex lg details evs e)) \<le> Suc 0"
    if "failure_calls evs = 0" for lg details evs e
    using that catch_block_calls(2)[of rt ex lg details evs e] by simp
  show ?thesis
    unfolding perform_def Let_def
    by (auto split: option.splits sum.splits simp: a catch_block_calls(1) intro!: f)
qed

lemma broken_adapter_run:
  "perform (example_runtime completing_job) (example_executor broken_adapter welcome_job) =
     ([LoggerInfo console welcome_job (JNum 42), AdapterSuccess welcome_job,
       LoggerErrorStack console (JErr ''Error'' ''connection lost''),
       AdapterFailure welcome_job (JErr ''Error'' ''connection lost'')
         \<lparr>fo_maxAttempts = Some 24, fo_deleteFailedJobs = Some False\<rparr>],
      Inr JNull)"
proof -
  let ?rt = "example_runtime completing_job"
  let ?ex = "example_executor broken_adapter welcome_job"
  have sm: "string_message (JErr ''Error'' ''connection lost'') = Some ''connection lost''"
    by (simp add: string_message_def)
  have nm: "\<not> occurs_in ''is not a constructor'' ''connection lost''"
    by simp
  have "perform ?rt ?ex = catch_block ?rt ?ex console welcome_details
          [LoggerInfo console welcome_job (JNum 42), AdapterSuccess welcome_job]
          (JErr ''Error'' ''connection lost'')"
    using perform_parsed[of ?ex console "JNum 42" "JStr welcome_handler" ?rt welcome_details]
    by (simp add: example_executor_fields welcome_job_props example_parse_welcome
        completing_job_invoke broken_adapter_def)
  then show ?thesis
    using catch_block_string[OF sm, of welcome_details ?rt ?ex console
        "[LoggerInfo console welcome_job (JNum 42), AdapterSuccess welcome_job]"] nm
    by (simp add: example_executor_fields broken_adapter_def Let_def)
qed

section \<open>Containment of errors in \<open>perform\<close>\<close>

text \<open>
  The handler field is parsed before the \<open>try\<close> block: for the job record without a
  \<open>handler\<close> field, \<open>JSON.parse\<close> throws, the promise of \<open>perform\<close> is rejected with
  that error, and \<open>adapter.failure\<close> is not called.
\<close>

theorem perform_parse_error_escapes:
  "JSON_parse (example_runtime completing_job) JUndefined
     = Inl (JErr ''SyntaxError'' ''Unexpected token in JSON'')
   \<and> snd (perform (example_runtime completing_job) (example_executor quiet_adapter bare_job))
     = Inl (JErr ''SyntaxError'' ''Unexpected token in JSON'')
   \<and> failure_calls (fst (perform (example_runtime completing_job)
                            (example_executor quiet_adapter bare_job))) = 0"
  by (simp add: perform_def example_runtime_def example_executor_def bare_job_def
      example_parse_def failure_calls_def)

text \<open>
  C1, as the code has it. When the logger is defined and the handler field of the job
  parses, every value thrown while resolving, instantiating or invoking the handler
  (lines 69 and 70) that has a string message is caught: \<open>perform\<close> logs it, calls
  \<open>adapter.failure(job, error, {maxAttempts, deleteFailedJobs})\<close> once, and the promise
  of \<open>perform\<close> settles as that call does; \<open>adapter.success\<close> is not called.
\<close>

theorem perform_contains_handler_errors:
  assumes "logger ex = Some lg" "get_prop (job ex) ''id'' = Inr jid"
    "get_prop (job ex) ''handler'' = Inr h" "JSON_parse rt h = Inr details"
    "load_and_invoke rt details = Inl e" "string_message e = Some m"
  shows "\<exists>error. (error = e \<or> error = JobExportNotFoundError rt (handler_name details))
           \<and> perform rt ex =
             ([LoggerInfo lg (job ex) jid, LoggerErrorStack lg error,
               AdapterFailure (job ex) error (failure_options ex)],
              failure (adapter ex) (job ex) error (failure_options ex))"
proof -
  have hn: "occurs_in ''is not a constructor'' m \<Longrightarrow>
            get_prop details ''handler'' = Inr (handler_name details)"
    using load_and_invoke_handler[OF assms(5)] message_match_string[OF assms(6)] by simp
  have "perform rt ex = catch_block rt ex lg details [LoggerInfo lg (job ex) jid] e"
    using perform_parsed[OF assms(1-4)] assms(5) by simp
  then show ?thesis
    using catch_block_string[OF assms(6) hn, of rt ex lg "[LoggerInfo lg (job ex) jid]"]
    by (simp add: Let_def)
qed

theorem perform_contains_handler_errors_witness:
  "logger (example_executor quiet_adapter welcome_job) = Some console
   \<and> get_prop (job (example_executor quiet_adapter welcome_job)) ''id'' = Inr (JNum 42)
   \<and> get_prop (job (example_executor quiet_adapter welcome_job)) ''handler''
       = Inr (JStr welcome_handler)
   \<and> JSON_parse (example_runtime (throwing_job (JErr ''Error'' ''boom''))) (JStr welcome_handler)
       = Inr welcome_details
   \<and> load_and_invoke (example_runtime (throwing_job (JErr ''Error'' ''boom''))) welcome_details
       = Inl (JErr ''Error'' ''boom'')
   \<and> string_message (JErr ''Error'' ''boom'') = Some ''boom''
   \<and> (\<exists>error. (error = JErr ''Error'' ''boom''
                   \<or> error = JobExportNotFoundError
                               (example_runtime (throwing_job (JErr ''Error'' ''boom'')))
                               (handler_name welcome_details))
          \<and> perform (example_runtime (throwing_job (JErr ''Error'' ''boom'')))
                  (example_executor quiet_adapter welcome_job) =
         ([LoggerInfo console welcome_job (JNum 42), LoggerErrorStack console error,
           AdapterFailure welcome_job error
             \<lparr>fo_maxAttempts = Some 24, fo_deleteFailedJobs = Some False\<rparr>],
          Inr JNull))"
proof -
  let ?rt = "example_runtime (throwing_job (JErr ''Error'' ''boom''))"
  let ?ex = "example_executor quiet_adapter welcome_job"
  have h1: "logger ?ex = Some console" by (simp add: example_executor_fields)
  have h2: "get_prop (job ?ex) ''id'' = Inr (JNum 42)"
    by (simp add: example_executor_fields welcome_job_props)
  have h3: "get_prop (job ?ex) ''handler'' = Inr (JStr welcome_handler)"
    by (simp add: example_executor_fields welcome_job_props)
  have h4: "JSON_parse ?rt (JStr welcome_handler) = Inr welcome_details"
    by (rule example_parse_welcome)
  have h5: "load_and_invoke ?rt welcome_details = Inl (JErr ''Error'' ''boom'')"
    by (rule throwing_job_invoke)
  have h6: "string_message (JErr ''Error'' ''boom'') = Some ''boom''"
    by (simp add: string_message_def)
  have "failure (adapter ?ex) (job ?ex) e fo = Inr JNull" for e fo
    by (simp add: example_executor_fields quiet_adapter_def)
  with perform_contains_handler_errors[OF h1 h2 h3 h4 h5 h6] h1 h2 h3 h4 h5 h6
  show ?thesis by (simp add: example_executor_fields)
qed

section \<open>How often the adapter is called\<close>

text \<open>
  Two runs of \<open>perform\<close>. For the job record without a \<open>handler\<close> field, \<open>JSON.parse\<close>
  throws before the \<open>try\<close> block and neither adapter method is called. For the welcome
  job with an adapter whose \<open>success\<close> throws, the \<open>catch\<close> block takes the error of
  \<open>adapter.success\<close> and calls \<open>adapter.failure\<close>: both are called.
\<close>

theorem perform_calls_neither_or_both:
  "success_calls (fst (perform (example_runtime completing_job)
                         (example_executor quiet_adapter bare_job))) = 0
   \<and> failure_calls (fst (perform (example_runtime completing_job)
                           (example_executor quiet_adapter bare_job))) = 0
   \<and> success_calls (fst (perform (example_runtime completing_job)
                           (example_executor broken_adapter welcome_job))) = 1
   \<and> failure_calls (fst (perform (example_runtime completing_job)
                           (example_executor broken_adapter welcome_job))) = 1"
proof -
  have "perform (example_runtime completing_job) (example_executor quiet_adapter bare_job) =
          ([LoggerInfo console bare_job (JNum 43)],
           Inl (JErr ''SyntaxError'' ''Unexpected token in JSON''))"
    by (simp add: perform_def example_runtime_def example_executor_def bare_job_def
        example_parse_def)
  then show ?thesis
    by (simp add: broken_adapter_run success_calls_def failure_calls_def)
qed

text \<open>
  C2, as the code has it. In every run of \<open>perform\<close>, \<open>adapter.success\<close> is called at
  most once and \<open>adapter.failure\<close> at most once. When the logger is defined, the handler
  field of the job parses, every value thrown while loading or invoking the handler has a
  string message, and \<open>adapter.success\<close> does not throw, exactly one of the two is
  called, exactly once.
\<close>

theorem perform_adapter_calls:
  "success_calls (fst (perform rt ex)) \<le> 1 \<and> failure_calls (fst (perform rt ex)) \<le> 1 \<and>
   (logger ex = Some lg \<and> get_prop (job ex) ''id'' = Inr jid
    \<and> get_prop (job ex) ''handler'' = Inr h \<and> JSON_parse rt h = Inr details
    \<and> (\<forall>e. load_and_invoke rt details = Inl e \<longrightarrow> string_message e \<noteq> None)
    \<and> (\<exists>r. success (adapter ex) (job ex) = Inr r)
    \<longrightarrow> success_calls (fst (perform rt ex)) + failure_calls (fst (perform rt ex)) = 1)"
proof -
  have "success_calls (fst (perform rt ex)) + failure_calls (fst (perform rt ex)) = 1"
    if h: "logger ex = Some lg" "get_prop (job ex) ''id'' = Inr jid"
      "get_prop (job ex) ''handler'' = Inr h" "JSON_parse rt h = Inr details"
      and m: "\<forall>e. load_and_invoke rt details = Inl e \<longrightarrow> string_message e \<noteq> None"
      and s: "\<exists>r. success (adapter ex) (job ex) = Inr r"
  proof (cases "load_and_invoke rt details")
    case (Inl e)
    with m obtain msg where sm: "string_message e = Some msg" by auto
    have hn: "occurs_in ''is not a constructor'' msg \<Longrightarrow>
              get_prop details ''handler'' = Inr (handler_name details)"
      using load_and_invoke_handler[OF Inl] message_match_string[OF sm] by simp
    have p: "perform rt ex = catch_block rt ex lg details [LoggerInfo lg (job ex) jid] e"
      using perform_parsed[OF h] Inl by simp
    show ?thesis
      using catch_block_string_calls[OF sm hn, of rt ex lg "[LoggerInfo lg (job ex) jid]"]
        catch_block_calls(1)[of rt ex lg details "[LoggerInfo lg (job ex) jid]" e]
      by (simp add: p success_calls_def failure_calls_def)
  next
    case (Inr u)
    from s obtain r where "success (adapter ex) (job ex) = Inr r" by blast
    then have "perform rt ex = ([LoggerInfo lg (job ex) jid, AdapterSuccess (job ex)], Inr r)"
      using perform_parsed[OF h] Inr by simp
    then show ?thesis by (simp add: success_calls_def failure_calls_def)
  qed
  then show ?thesis using perform_at_most_once[of rt ex] by blast
qed

theorem perform_adapter_calls_witness:
  "logger (example_executor quiet_adapter welcome_job) = Some console
   \<and> get_prop (job (example_executor quiet_adapter welcome_job)) ''id'' = Inr (JNum 42)
   \<and> get_prop (job (example_executor quiet_adapter welcome_job)) ''handler''
       = Inr (JStr welcome_handler)
   \<and> JSON_parse (example_runtime NotAConstructor) (JStr welcome_handler) = Inr welcome_details
   \<and> load_and_invoke (example_runtime NotAConstructor) welcome_details
       = Inl (TypeError ''jobModule[details.handler] is not a constructor'')
   \<and> string_message (TypeError ''jobModule[details.handler] is not a constructor'') \<noteq> None
   \<and> (\<exists>r. success (adapter (example_executor quiet_adapter welcome_job))
              (job (example_executor quiet_adapter welcome_job)) = Inr r)
   \<and> success_calls (fst (perform (example_runtime NotAConstructor)
                           (example_executor quiet_adapter welcome_job)))
     + failure_calls (fst (perform (example_runtime NotAConstructor)
                             (example_executor quiet_adapter welcome_job))) = 1"
proof -
  let ?rt = "example_runtime NotAConstructor"
  let ?ex = "example_executor quiet_adapter welcome_job"
  have h1: "logger ?ex = Some console" by (simp add: example_executor_fields)
  have h2: "get_prop (job ?ex) ''id'' = Inr (JNum 42)"
    by (simp add: example_executor_fields welcome_job_props)
  have h3: "get_prop (job ?ex) ''handler'' = Inr (JStr welcome_handler)"
    by (simp add: example_executor_fields welcome_job_props)
  have h4: "JSON_parse ?rt (JStr welcome_handler) = Inr welcome_details"
    by (rule example_parse_welcome)
  have h5: "\<forall>e. load_and_invoke ?rt welcome_details = Inl e \<longrightarrow> string_message e \<noteq> None"
    by (simp add: not_a_constructor_invoke string_message_def TypeError_def)
  have h6: "\<exists>r. success (adapter ?ex) (job ?ex) = Inr r"
    by (simp add: example_executor_fields quiet_adapter_def)
  have h7: "string_message (TypeError ''jobModule[details.handler] is not a constructor'') \<noteq> None"
    by (simp add: string_message_def TypeError_def)
  from perform_adapter_calls[of ?rt ?ex console "JNum 42" "JStr welcome_handler" welcome_details]
    h1 h2 h3 h4 h5 h6 h7 not_a_constructor_invoke
  show ?thesis by blast
qed

section \<open>The success path\<close>

text \<open>
  The handler of the welcome job resolves and its \<open>perform\<close> completes, but
  \<open>adapter.success\<close> throws inside the \<open>try\<close> block: \<open>adapter.failure\<close> is called for
  the job, and \<open>perform\<close> returns the result of \<open>adapter.failure\<close>.
\<close>

theorem perform_success_throws_calls_failure:
  "load_and_invoke (example_runtime completing_job) welcome_details = Inr ()
   \<and> failure_calls (fst (perform (example_runtime completing_job)
                           (example_executor broken_adapter welcome_job))) = 1
   \<and> snd (perform (example_runtime completing_job)
             (example_executor broken_adapter welcome_job)) = Inr JNull"
  by (simp add: broken_adapter_run completing_job_invoke failure_calls_def)

text \<open>
  C3, as the code has it. When the logger is defined, the handler field of the job
  parses, the handler resolves and its \<open>perform\<close> completes without throwing, and
  \<open>adapter.success\<close> returns without throwing, \<open>perform\<close> calls \<open>adapter.success\<close> exactly
  once with the job, returns its result, and does not call \<open>adapter.failure\<close>.
\<close>

theorem perform_reports_success:
  assumes "logger ex = Some lg" "get_prop (job ex) ''id'' = Inr jid"
    "get_prop (job ex) ''handler'' = Inr h" "JSON_parse rt h = Inr details"
    "load_and_invoke rt details = Inr u" "success (adapter ex) (job ex) = Inr r"
  shows "perform rt ex = ([LoggerInfo lg (job ex) jid, AdapterSuccess (job ex)], Inr r)
    \<and> success_calls (fst (perform rt ex)) = 1 \<and> failure_calls (fst (perform rt ex)) = 0"
  using perform_parsed[OF assms(1-4)] assms(5,6)
  by (simp add: success_calls_def failure_calls_def)

theorem perform_reports_success_witness:
  "logger (example_executor quiet_adapter welcome_job) = Some console
   \<and> get_prop (job (example_executor quiet_adapter welcome_job)) ''id'' = Inr (JNum 42)
   \<and> get_prop (job (example_executor quiet_adapter welcome_job)) ''handler''
       = Inr (JStr welcome_handler)
   \<and> JSON_parse (example_runtime completing_job) (JStr welcome_handler) = Inr welcome_details
   \<and> load_and_invoke (example_runtime completing_job) welcome_details = Inr ()
   \<and> success (adapter (example_executor quiet_adapter welcome_job))
        (job (example_executor quiet_adapter welcome_job)) = Inr JUndefined
   \<and> perform (example_runtime completing_job) (example_executor quiet_adapter welcome_job)
       = ([LoggerInfo console welcome_job (JNum 42), AdapterSuccess welcome_job],
          Inr JUndefined)"
proof -
  let ?rt = "example_runtime completing_job"
  let ?ex = "example_executor quiet_adapter welcome_job"
  have h1: "logger ?ex = Some console" by (simp add: example_executor_fields)
  have h2: "get_prop (job ?ex) ''id'' = Inr (JNum 42)"
    by (simp add: example_executor_fields welcome_job_props)
  have h3: "get_prop (job ?ex) ''handler'' = Inr (JStr welcome_handler)"
    by (simp add: example_executor_fields welcome_job_props)
  have h4: "JSON_parse ?rt (JStr welcome_handler) = Inr welcome_details"
    by (rule example_parse_welcome)
  have h5: "load_and_invoke ?rt welcome_details = Inr ()"
    by (rule completing_job_invoke)
  have h6: "success (adapter ?ex) (job ?ex) = Inr JUndefined"
    by (simp add: example_executor_fields quiet_adapter_def)
  from perform_reports_success[OF h1 h2 h3 h4 h5 h6] h1 h2 h3 h4 h5 h6
  show ?thesis by (simp add: example_executor_fields)
qed

section \<open>Classification of the caught error\<close>

text \<open>
  C4. Every value caught inside \<open>perform\<close> is to reach \<open>adapter.failure\<close>: as a
  \<open>JobExportNotFoundError\<close> for the handler name when its message indicates a failed
  construction, unchanged otherwise. The code misses the values that have no message.
  A handler that throws the string \<open>boom\<close>: the caught value has no \<open>message\<close>, so
  nothing indicates a failed construction, yet no error reaches \<open>adapter.failure\<close>,
  because reading \<open>e.message.match\<close> throws before the call.
\<close>

theorem perform_thrown_string_not_reported:
  "load_and_invoke (example_runtime (throwing_job (JStr ''boom''))) welcome_details
     = Inl (JStr ''boom'')
   \<and> string_message (JStr ''boom'') = None
   \<and> reported_errors (fst (perform (example_runtime (throwing_job (JStr ''boom'')))
                             (example_executor quiet_adapter welcome_job))) = []"
proof -
  let ?rt = "example_runtime (throwing_job (JStr ''boom''))"
  let ?ex = "example_executor quiet_adapter welcome_job"
  have "perform ?rt ?ex = catch_block ?rt ?ex console welcome_details
          [LoggerInfo console welcome_job (JNum 42)] (JStr ''boom'')"
    using perform_parsed[of ?ex console "JNum 42" "JStr welcome_handler" ?rt welcome_details]
    by (simp add: example_executor_fields welcome_job_props example_parse_welcome
        throwing_job_invoke)
  then show ?thesis
    by (simp add: throwing_job_invoke catch_block_def message_match_def string_message_def)
qed

text \<open>
  On the caught values that have a string message (thrown while loading or invoking the
  handler, or by \<open>adapter.success\<close>) the classification is the intended one: a message
  containing \<open>is not a constructor\<close> gives the \<open>JobExportNotFoundError\<close> built for
  \<open>details.handler\<close>, whatever the rest of the message; any other message gives the
  caught value itself.
\<close>

lemma perform_classifies_error:
  assumes "logger ex = Some lg" "get_prop (job ex) ''id'' = Inr jid"
    "get_prop (job ex) ''handler'' = Inr h" "JSON_parse rt h = Inr details"
    "load_and_invoke rt details = Inl e
     \<or> (load_and_invoke rt details = Inr u \<and> success (adapter ex) (job ex) = Inl e)"
    "string_message e = Some m"
  shows "reported_errors (fst (perform rt ex)) =
           [if occurs_in ''is not a constructor'' m
            then JobExportNotFoundError rt (handler_name details) else e]
         \<and> (occurs_in ''is not a constructor'' m
              \<longrightarrow> get_prop details ''handler'' = Inr (handler_name details))"
proof -
  have hn: "get_prop details ''handler'' = Inr (handler_name details)"
    if "occurs_in ''is not a constructor'' m"
    using assms(5) that load_and_invoke_handler[of rt details e]
      load_and_invoke_done_handler[of rt details u] message_match_string[OF assms(6)]
    by auto
  obtain evs where p: "perform rt ex = catch_block rt ex lg details evs e"
    and evs: "reported_errors evs = []"
    using perform_parsed[OF assms(1-4)] assms(5) by (cases u) auto
  show ?thesis
    using catch_block_string[OF assms(6) hn, of rt ex lg evs] evs hn
    by (auto simp add: p Let_def reported_errors_append)
qed

lemma perform_classifies_error_example:
  "logger (example_executor quiet_adapter welcome_job) = Some console
   \<and> get_prop (job (example_executor quiet_adapter welcome_job)) ''id'' = Inr (JNum 42)
   \<and> get_prop (job (example_executor quiet_adapter welcome_job)) ''handler''
       = Inr (JStr welcome_handler)
   \<and> JSON_parse (example_runtime NotAConstructor) (JStr welcome_handler) = Inr welcome_details
   \<and> load_and_invoke (example_runtime NotAConstructor) welcome_details
       = Inl (TypeError ''jobModule[details.handler] is not a constructor'')
   \<and> string_message (TypeError ''jobModule[details.handler] is not a constructor'')
       = Some ''jobModule[details.handler] is not a constructor''
   \<and> reported_errors (fst (perform (example_runtime NotAConstructor)
                             (example_executor quiet_adapter welcome_job)))
       = [JExportNotFound (JStr ''SendWelcomeEmailJob'')
            ''Job file does not export a class with the same name'']"
proof -
  let ?rt = "example_runtime NotAConstructor"
  let ?ex = "example_executor quiet_adapter welcome_job"
  let ?m = "''jobModule[details.handler] is not a constructor''"
  have h1: "logger ?ex = Some console" by (simp add: example_executor_fields)
  have h2: "get_prop (job ?ex) ''id'' = Inr (JNum 42)"
    by (simp add: example_executor_fields welcome_job_props)
  have h3: "get_prop (job ?ex) ''handler'' = Inr (JStr welcome_handler)"
    by (simp add: example_executor_fields welcome_job_props)
  have h4: "JSON_parse ?rt (JStr welcome_handler) = Inr welcome_details"
    by (rule example_parse_welcome)
  have h5: "load_and_invoke ?rt welcome_details = Inl (TypeError ?m)
            \<or> (load_and_invoke ?rt welcome_details = Inr ()
                \<and> success (adapter ?ex) (job ?ex) = Inl (TypeError ?m))"
    by (simp add: not_a_constructor_invoke)
  have h6: "string_message (TypeError ?m) = Some ?m"
    by (simp add: string_message_def TypeError_def)
  have m: "occurs_in ''is not a constructor'' ?m" by simp
  have n: "JobExportNotFoundError ?rt (handler_name welcome_details) =
           JExportNotFound (JStr ''SendWelcomeEmailJob'')
             ''Job file does not export a class with the same name''"
    by (simp add: JobExportNotFoundError_def handler_name_def welcome_details_def
        example_runtime_def)
  from perform_classifies_error[OF h1 h2 h3 h4 h5 h6] h1 h2 h3 h4 h6 m n
  show ?thesis by (simp add: not_a_constructor_invoke)
qed

section \<open>Thrown values without a string message\<close>

text \<open>
  C9. When the value thrown while loading or invoking the handler has no string message
  (a thrown string, \<open>null\<close>, a plain object without \<open>message\<close>), the classification in
  the \<open>catch\<close> block throws a TypeError itself: neither \<open>adapter.success\<close> nor
  \<open>adapter.failure\<close> is called, and the promise of \<open>perform\<close> is rejected with that
  TypeError.
\<close>

theorem perform_messageless_escapes:
  assumes "logger ex = Some lg" "get_prop (job ex) ''id'' = Inr jid"
    "get_prop (job ex) ''handler'' = Inr h" "JSON_parse rt h = Inr details"
    "load_and_invoke rt details = Inl e" "string_message e = None"
  shows "(\<exists>msg. perform rt ex = ([LoggerInfo lg (job ex) jid], Inl (TypeError msg)))
    \<and> success_calls (fst (perform rt ex)) = 0 \<and> failure_calls (fst (perform rt ex)) = 0"
proof -
  have p: "perform rt ex = catch_block rt ex lg details [LoggerInfo lg (job ex) jid] e"
    using perform_parsed[OF assms(1-4)] assms(5) by simp
  from catch_block_no_string[OF assms(6), of rt ex lg details "[LoggerInfo lg (job ex) jid]"]
  obtain msg where "perform rt ex = ([LoggerInfo lg (job ex) jid], Inl (TypeError msg))"
    using p by auto
  then show ?thesis by (auto simp add: success_calls_def failure_calls_def)
qed


theorem perform_messageless_escapes_witness:
  "logger (example_executor quiet_adapter welcome_job) = Some console
   \<and> get_prop (job (example_executor quiet_adapter welcome_job)) ''id'' = Inr (JNum 42)
   \<and> get_prop (job (example_executor quiet_adapter welcome_job)) ''handler''
       = Inr (JStr welcome_handler)
   \<and> JSON_parse (example_runtime (throwing_job JNull)) (JStr welcome_handler)
       = Inr welcome_details
   \<and> load_and_invoke (example_runtime (throwing_job JNull)) welcome_details = Inl JNull
   \<and> string_message JNull = None
   \<and> (\<exists>msg. perform (example_runtime (throwing_job JNull))
                (example_executor quiet_adapter welcome_job)
         = ([LoggerInfo console welcome_job (JNum 42)], Inl (TypeError msg)))"
proof -
  let ?rt = "example_runtime (throwing_job JNull)"
  let ?ex = "example_executor quiet_adapter welcome_job"
  have h1: "logger ?ex = Some console" by (simp add: example_executor_fields)
  have h2: "get_prop (job ?ex) ''id'' = Inr (JNum 42)"
    by (simp add: example_executor_fields welcome_job_props)
  have h3: "get_prop (job ?ex) ''handler'' = Inr (JStr welcome_handler)"
    by (simp add: example_executor_fields welcome_job_props)
  have h4: "JSON_parse ?rt (JStr welcome_handler) = Inr welcome_details"
    by (rule example_parse_welcome)
  have h5: "load_and_invoke ?rt welcome_details = Inl JNull"
    by (rule throwing_job_invoke)
  have h6: "string_message JNull = None"
    by (simp add: string_message_def TypeError_def)
  from perform_messageless_escapes[OF h1 h2 h3 h4 h5 h6] h1 h2 h3 h4 h5 h6
  show ?thesis by (simp add: example_executor_fields)
qed

section \<open>Construction of an Executor\<close>

lemma spread_field_Absent: "spread_field Absent x = x"
  by (cases x) simp_all

lemma spread_defaults:
  "opt_adapter (spread (DEFAULTS rt) opts) = opt_adapter opts"
  "opt_job (spread (DEFAULTS rt) opts) = opt_job opts"
  "read_field (opt_logger (spread (DEFAULTS rt) opts)) =
     (case opt_logger opts of Absent \<Rightarrow> Some console | Undefined \<Rightarrow> None | Value l \<Rightarrow> Some l)"
  "read_field (opt_maxAttempts (spread (DEFAULTS rt) opts)) =
     (case opt_maxAttempts opts of Absent \<Rightarrow> Some (DEFAULT_MAX_ATTEMPTS rt)
        | Undefined \<Rightarrow> None | Value n \<Rightarrow> Some n)"
  "read_field (opt_deleteFailedJobs (spread (DEFAULTS rt) opts)) =
     (case opt_deleteFailedJobs opts of Absent \<Rightarrow> Some (DEFAULT_DELETE_FAILED_JOBS rt)
        | Undefined \<Rightarrow> None | Value b \<Rightarrow> Some b)"
  by (simp_all add: spread_def DEFAULTS_def spread_field_Absent split: field.splits)

text \<open>
  C5. The constructor throws \<open>AdapterRequiredError\<close> when the options have no adapter
  (the key is absent or \<open>undefined\<close>), and \<open>JobRequiredError\<close> when they have an adapter
  but no job (the key is absent, \<open>undefined\<close>, or holds a falsy value); otherwise it returns
  the Executor holding that adapter and that job. The constructor is a function of the
  options and the defaults alone: it parses nothing, loads nothing and calls neither the
  logger nor the adapter.
\<close>

theorem new_Executor_validates:
  "(opt_adapter opts \<in> {Absent, Undefined} \<longrightarrow> new_Executor rt opts = Inl AdapterRequiredError)
   \<and> (opt_adapter opts = Value a
        \<and> (opt_job opts \<in> {Absent, Undefined} \<or> (\<exists>j. opt_job opts = Value j \<and> \<not> truthy j))
      \<longrightarrow> new_Executor rt opts = Inl JobRequiredError)
   \<and> (opt_adapter opts = Value a \<and> opt_job opts = Value j \<and> truthy j
      \<longrightarrow> (\<exists>ex. new_Executor rt opts = Inr ex \<and> adapter ex = a \<and> job ex = j))"
  by (auto simp: new_Executor_def Let_def spread_defaults)


theorem new_Executor_validates_witness:
  "opt_adapter (example_options quiet_adapter welcome_job\<lparr>opt_adapter := Undefined\<rparr>)
       \<in> {Absent, Undefined}
   \<and> new_Executor (example_runtime completing_job)
        (example_options quiet_adapter welcome_job\<lparr>opt_adapter := Undefined\<rparr>)
       = Inl AdapterRequiredError
   \<and> opt_adapter (example_options quiet_adapter JNull) = Value quiet_adapter
   \<and> opt_job (example_options quiet_adapter JNull) = Value JNull \<and> \<not> truthy JNull
   \<and> new_Executor (example_runtime completing_job) (example_options quiet_adapter JNull)
       = Inl JobRequiredError
   \<and> opt_job (example_options quiet_adapter welcome_job) = Value welcome_job
   \<and> truthy welcome_job
   \<and> (\<exists>ex. new_Executor (example_runtime completing_job)
               (example_options quiet_adapter welcome_job) = Inr ex
          \<and> job ex = welcome_job)"
proof -
  let ?rt = "example_runtime completing_job"
  have a: "opt_adapter (example_options quiet_adapter welcome_job\<lparr>opt_adapter := Undefined\<rparr>)
             \<in> {Absent, Undefined}"
    by simp
  have b: "opt_adapter (example_options quiet_adapter j) = Value quiet_adapter"
    "opt_job (example_options quiet_adapter j) = Value j" for j
    by (simp_all add: example_options_def)
  have t: "\<not> truthy JNull" "truthy welcome_job"
    by (simp_all add: welcome_job_def)
  from new_Executor_validates
         [of "example_options quiet_adapter welcome_job\<lparr>opt_adapter := Undefined\<rparr>" ?rt]
    a
  have 1: "new_Executor ?rt (example_options quiet_adapter welcome_job\<lparr>opt_adapter := Undefined\<rparr>)
             = Inl AdapterRequiredError"
    by blast
  from new_Executor_validates[of "example_options quiet_adapter JNull" ?rt quiet_adapter] b t
  have 2: "new_Executor ?rt (example_options quiet_adapter JNull) = Inl JobRequiredError"
    by blast
  from new_Executor_validates
         [of "example_options quiet_adapter welcome_job" ?rt quiet_adapter welcome_job] b t
  have 3: "\<exists>ex. new_Executor ?rt (example_options quiet_adapter welcome_job) = Inr ex
             \<and> job ex = welcome_job"
    by blast
  from a b t 1 2 3 show ?thesis by blast
qed

text \<open>
  C10. The defaults are spread under the options, so each of \<open>logger\<close>, \<open>maxAttempts\<close> and
  \<open>deleteFailedJobs\<close> takes its default only when its key is absent from the options: a
  key present with the value \<open>undefined\<close> leaves \<open>undefined\<close> on the Executor, and a key
  present with a value leaves that value. This holds of every construction that passes
  the two checks, which is every one with an adapter and a truthy job.
\<close>

theorem new_Executor_spread_defaults:
  assumes "opt_adapter opts = Value a" "opt_job opts = Value j" "truthy j"
  shows "\<exists>ex. new_Executor rt opts = Inr ex \<and> adapter ex = a \<and> job ex = j
       \<and> options ex = spread (DEFAULTS rt) opts
       \<and> logger ex =
           (case opt_logger opts of Absent \<Rightarrow> Some console | Undefined \<Rightarrow> None
            | Value l \<Rightarrow> Some l)
       \<and> maxAttempts ex =
           (case opt_maxAttempts opts of Absent \<Rightarrow> Some (DEFAULT_MAX_ATTEMPTS rt)
            | Undefined \<Rightarrow> None | Value n \<Rightarrow> Some n)
       \<and> deleteFailedJobs ex =
           (case opt_deleteFailedJobs opts of Absent \<Rightarrow> Some (DEFAULT_DELETE_FAILED_JOBS rt)
            | Undefined \<Rightarrow> None | Value b \<Rightarrow> Some b)"
  using assms
  by (simp add: new_Executor_def Let_def spread_defaults)

theorem new_Executor_spread_defaults_witness:
  "(\<exists>ex. new_Executor (example_runtime completing_job)
           (example_options quiet_adapter welcome_job
              \<lparr>opt_logger := Undefined, opt_maxAttempts := Undefined,
               opt_deleteFailedJobs := Undefined\<rparr>) = Inr ex
        \<and> job ex = welcome_job
        \<and> logger ex = None \<and> maxAttempts ex = None \<and> deleteFailedJobs ex = None)
   \<and> (\<exists>ex. new_Executor (example_runtime completing_job)
           (example_options quiet_adapter welcome_job) = Inr ex
        \<and> job ex = welcome_job
        \<and> logger ex = Some console \<and> maxAttempts ex = Some 24
        \<and> deleteFailedJobs ex = Some False)
   \<and> (\<exists>ex. new_Executor (example_runtime completing_job)
           (example_options quiet_adapter welcome_job
              \<lparr>opt_logger := Value (AppLogger ''pino''), opt_maxAttempts := Value 3,
               opt_deleteFailedJobs := Value True\<rparr>) = Inr ex
        \<and> job ex = welcome_job
        \<and> logger ex = Some (AppLogger ''pino'') \<and> maxAttempts ex = Some 3
        \<and> deleteFailedJobs ex = Some True)"
proof -
  let ?rt = "example_runtime completing_job"
  let ?o = "example_options quiet_adapter welcome_job"
  have t: "truthy welcome_job" by (simp add: welcome_job_def)
  have d: "DEFAULT_MAX_ATTEMPTS ?rt = 24" "DEFAULT_DELETE_FAILED_JOBS ?rt = False"
    by (simp_all add: example_runtime_def)
  have 1: "\<exists>ex. new_Executor ?rt (?o\<lparr>opt_logger := Undefined, opt_maxAttempts := Undefined,
                                     opt_deleteFailedJobs := Undefined\<rparr>) = Inr ex
        \<and> job ex = welcome_job
        \<and> logger ex = None \<and> maxAttempts ex = None \<and> deleteFailedJobs ex = None"
    using new_Executor_spread_defaults[of "?o\<lparr>opt_logger := Undefined, opt_maxAttempts := Undefined,
                    opt_deleteFailedJobs := Undefined\<rparr>" quiet_adapter welcome_job ?rt] t
    by (auto simp add: example_options_def)
  have 2: "\<exists>ex. new_Executor ?rt ?o = Inr ex \<and> job ex = welcome_job
        \<and> logger ex = Some console \<and> maxAttempts ex = Some 24
        \<and> deleteFailedJobs ex = Some False"
    using new_Executor_spread_defaults[of ?o quiet_adapter welcome_job ?rt] t d
    by (auto simp add: example_options_def)
  have 3: "\<exists>ex. new_Executor ?rt (?o\<lparr>opt_logger := Value (AppLogger ''pino''),
                                     opt_maxAttempts := Value 3,
                                     opt_deleteFailedJobs := Value True\<rparr>) = Inr ex
        \<and> job ex = welcome_job
        \<and> logger ex = Some (AppLogger ''pino'') \<and> maxAttempts ex = Some 3
        \<and> deleteFailedJobs ex = Some True"
    using new_Executor_spread_defaults[of "?o\<lparr>opt_logger := Value (AppLogger ''pino''), opt_maxAttempts := Value 3,
                    opt_deleteFailedJobs := Value True\<rparr>" quiet_adapter welcome_job ?rt] t
    by (auto simp add: example_options_def)
  from 1 2 3 show ?thesis by blast
qed

section \<open>The job handed to the collaborators\<close>

lemma catch_block_jobs:
  assumes "\<forall>ev \<in> set evs. event_job ev = None \<or> event_job ev = Some (job ex)"
  shows "\<forall>ev \<in> set (fst (catch_block rt ex lg details evs e)).
           event_job ev = None \<or> event_job ev = Some (job ex)"
  using assms by (auto simp: catch_block_def Let_def split: sum.splits)

text \<open>
  C6. \<open>perform\<close> writes no field of the job and replaces it nowhere: every call that is
  given a job (\<open>logger.info\<close>, \<open>adapter.success\<close>, \<open>adapter.failure\<close>) is given the job held
  by the Executor, as it is.
\<close>

theorem perform_passes_same_job:
  "\<forall>ev \<in> set (fst (perform rt ex)). event_job ev = None \<or> event_job ev = Some (job ex)"
proof -
  have c: "(\<forall>ev \<in> set (fst (catch_block rt ex lg d evs e)).
              event_job ev = None \<or> event_job ev = Some (job ex)) = True"
    if "\<forall>ev \<in> set evs. event_job ev = None \<or> event_job ev = Some (job ex)" for lg d evs e
    using catch_block_jobs[OF that] by simp
  show ?thesis
    unfolding perform_def Let_def
    by (simp split: option.splits sum.splits add: c)
qed

theorem perform_passes_same_job_witness:
  "AdapterSuccess welcome_job
     \<in> set (fst (perform (example_runtime completing_job)
                    (example_executor quiet_adapter welcome_job)))
   \<and> event_job (AdapterSuccess welcome_job)
       = Some (job (example_executor quiet_adapter welcome_job))"
proof -
  let ?rt = "example_runtime completing_job"
  let ?ex = "example_executor quiet_adapter welcome_job"
  have "perform ?rt ?ex =
          ([LoggerInfo console welcome_job (JNum 42), AdapterSuccess welcome_job], Inr JUndefined)"
    using perform_parsed[of ?ex console "JNum 42" "JStr welcome_handler" ?rt welcome_details]
    by (simp add: example_executor_fields welcome_job_props example_parse_welcome
        completing_job_invoke quiet_adapter_def)
  then have m: "AdapterSuccess welcome_job \<in> set (fst (perform ?rt ?ex))"
    by simp
  from perform_passes_same_job[of ?rt ?ex, rule_format, OF m] m
  show ?thesis by simp
qed

section \<open>Exit codes and signals of the worker process\<close>

text \<open>What the code of \<open>main\<close>, of the two handlers and of the \<open>then\<close> callback does where
  it runs.\<close>

lemma main_adapter_failure:
  assumes "loadLogger h = Inr lg" "loadAdapter h = Inl e"
  shows "main h = (booting h)\<lparr>p_log := [error_call e], p_status := Exited 1\<rparr>"
  using assms by (simp add: main_def Let_def)

lemma setupSignals_fails:
  assumes "process_on h SIGINT = Inl e"
  shows "setupSignals h p = p\<lparr>p_status := Crashed e\<rparr>"
  using assms by (simp add: setupSignals_def)

lemma main_no_handlers:
  assumes "process_on h SIGINT = Inl e"
  shows "p_handlers (main h) = []"
  using assms
  by (simp add: main_def Let_def booting_def setupSignals_fails split: sum.splits)

lemma main_not_running:
  assumes "process_on h SIGINT = Inl e"
  shows "p_status (main h) \<noteq> Running"
  using assms
  by (simp add: main_def Let_def booting_def setupSignals_fails split: sum.splits)

lemma installed_SIGTERM:
  assumes "p_status p = Running" "SIGTERM \<in> set (p_handlers p)"
  shows "p_status (deliver p (Signal SIGTERM)) = Exited 0"
  using assms by (simp add: on_SIGTERM_def)

lemma installed_SIGINT:
  assumes "p_status p = Running" "SIGINT \<in> set (p_handlers p)"
  shows "deliver p (Signal SIGINT) = on_SIGINT p" "p_status (on_SIGINT p) = Running"
  using assms by (simp_all add: on_SIGINT_def)

lemma started_run_resolved:
  assumes "p_status p = Running" "p_worker p = Some w"
  shows "p_status (deliver p RunResolved) = Exited 0"
  using assms by (simp add: on_run_resolved_def)

lemma registering_host_main:
  "main (registering_host (Inr quiet_adapter)) =
     \<lparr> p_title = ''rw-jobs-worker.0'', p_log = [info_starting ''rw-jobs-worker.0''],
       p_status = Running, p_worker = Some \<lparr>forever = True, internals = ()\<rparr>,
       p_handlers = [SIGINT, SIGTERM] \<rparr>"
  by (simp add: main_def registering_host_def namespace_host_def Let_def booting_def
      setupSignals_def setProcessTitle_def TITLE_PREFIX_def)

lemma namespace_host_main:
  "main (namespace_host (Inr quiet_adapter)) =
     \<lparr> p_title = ''rw-jobs-worker.0'', p_log = [info_starting ''rw-jobs-worker.0''],
       p_status = Crashed (TypeError ''process.on is not a function''),
       p_worker = Some \<lparr>forever = True, internals = ()\<rparr>,
       p_handlers = [] \<rparr>"
  by (simp add: main_def namespace_host_def Let_def booting_def
      setupSignals_def setProcessTitle_def TITLE_PREFIX_def)

text \<open>
  C7. The process is to exit with code 1 when \<open>loadAdapter\<close> throws, and with code 0 when
  \<open>worker.run()\<close> completes and at once on \<open>SIGTERM\<close>. On a runtime whose \<open>process\<close>
  namespace has no callable \<open>on\<close>, a start whose logger, adapter and Worker all load
  does not get there: \<open>setupSignals\<close> throws at its first \<open>process.on\<close>, \<open>main\<close> ends
  with that TypeError unhandled, no handler is registered, and neither a \<open>SIGTERM\<close> nor
  the completion of \<open>worker.run()\<close> makes the process exit with code 0; a \<open>SIGTERM\<close>
  during startup terminates it by the signal.
\<close>

theorem main_signal_setup_fails:
  "loadLogger (namespace_host (Inr quiet_adapter)) = Inr console
   \<and> loadAdapter (namespace_host (Inr quiet_adapter)) = Inr quiet_adapter
   \<and> p_status (main (namespace_host (Inr quiet_adapter)))
       = Crashed (TypeError ''process.on is not a function'')
   \<and> p_handlers (main (namespace_host (Inr quiet_adapter))) = []
   \<and> p_status (deliver (main (namespace_host (Inr quiet_adapter))) (Signal SIGTERM))
       = Crashed (TypeError ''process.on is not a function'')
   \<and> p_status (deliver (main (namespace_host (Inr quiet_adapter))) RunResolved)
       = Crashed (TypeError ''process.on is not a function'')
   \<and> p_status (deliver (booting (namespace_host (Inr quiet_adapter))) (Signal SIGTERM))
       = Killed SIGTERM"
  by (simp add: namespace_host_main) (simp add: namespace_host_def booting_def)

text \<open>
  C8. A \<open>SIGINT\<close> is to run a handler that logs a warning and sets \<open>forever\<close> to false,
  leaving the process running. On the same runtime the handler is never registered:
  the call \<open>process.on('SIGINT', ...)\<close> throws, the \<open>forever\<close> flag of the Worker stays
  true, a \<open>SIGINT\<close> after \<open>main\<close> changes nothing, and a \<open>SIGINT\<close> during startup
  terminates the process.
\<close>

theorem SIGINT_handler_never_installed:
  "process_on (namespace_host (Inr quiet_adapter)) SIGINT
       = Inl (TypeError ''process.on is not a function'')
   \<and> p_handlers (main (namespace_host (Inr quiet_adapter))) = []
   \<and> p_worker (main (namespace_host (Inr quiet_adapter)))
       = Some \<lparr>forever = True, internals = ()\<rparr>
   \<and> deliver (main (namespace_host (Inr quiet_adapter))) (Signal SIGINT)
       = main (namespace_host (Inr quiet_adapter))
   \<and> p_status (deliver (booting (namespace_host (Inr quiet_adapter))) (Signal SIGINT))
       = Killed SIGINT"
  by (simp add: namespace_host_main) (simp add: namespace_host_def booting_def)

end
